theory Spec2Isabelle
  imports Complex_Main
begin

section \<open>The realtime client of fal-js: connection manager and session\<close>

text \<open>
  The development embeds the realtime module (\<^verbatim>\<open>getToken\<close>,
  \<^verbatim>\<open>connectionManager\<close>, \<^verbatim>\<open>getConnection\<close> and \<^verbatim>\<open>realtimeImpl.connect\<close>) as functions on an
  explicit world state.  The module is event driven and single threaded: every piece of
  code runs to completion when one event of the environment arrives (a call of the caller,
  the reply to the token request, an event of a socket, a timer).  An event is a value of
  the datatype \<open>event\<close>, and \<open>step\<close> runs the code the event triggers.

  The modules \<^verbatim>\<open>./config\<close>, \<^verbatim>\<open>./request\<close>, \<^verbatim>\<open>./runtime\<close> and \<^verbatim>\<open>./utils\<close> are not among the
  sources.  What \<^verbatim>\<open>getConfig\<close>, \<^verbatim>\<open>getRestApiUrl\<close>, \<^verbatim>\<open>isReact\<close> and \<^verbatim>\<open>isBrowser\<close> return is a
  parameter of the world; a call of \<^verbatim>\<open>dispatchRequest\<close> is an effect and its outcome an
  event; \<^verbatim>\<open>throttle\<close> is modelled from the specification.  The callbacks \<^verbatim>\<open>onResult\<close> and
  \<^verbatim>\<open>onError\<close> of the caller are effects: they are recorded, and do not call back into the
  module.
\<close>

subsection \<open>Values\<close>

text \<open>JSON values, as \<^verbatim>\<open>JSON.parse\<close> returns them.  An object lists its properties in order.\<close>

datatype json =
    JNull
  | JBool bool
  | JNum int
  | JStr string
  | JArr "json list"
  | JObj "(string \<times> json) list"

text \<open>
  What \<^verbatim>\<open>dispatchRequest\<close> resolves to in \<^verbatim>\<open>getToken\<close> (\<^verbatim>\<open>const token: string | object\<close>): a
  string, or an object, of which the code reads the property \<^verbatim>\<open>detail\<close> only (\<open>None\<close>: the
  object has no such property).  \<^verbatim>\<open>getToken\<close> returns one of these values too.
\<close>

datatype tokenValue =
    StringValue string
  | ObjectValue "string option"

text \<open>JavaScript's truthiness of such a value (\<^verbatim>\<open>!token\<close>, \<^verbatim>\<open>token['detail']\<close>).\<close>

fun truthy :: "tokenValue \<Rightarrow> bool" where
  "truthy (StringValue t) = (t \<noteq> [])"
| "truthy (ObjectValue d) = True"

text \<open>The value in a template literal (\<^verbatim>\<open>`${token}`\<close>).\<close>

fun toString :: "tokenValue \<Rightarrow> string" where
  "toString (StringValue t) = t"
| "toString (ObjectValue d) = ''[object Object]''"

text \<open>
  Modelled from the spec: \<^verbatim>\<open>ApiError\<close> of \<^verbatim>\<open>./response\<close>, which is not among the sources.  The
  specification has it carry a message and a status code, the two fields the module sets.
\<close>

datatype ApiError = ApiError (message: string) (status: nat)

subsection \<open>Strings: \<^verbatim>\<open>split\<close> and \<^verbatim>\<open>join\<close>\<close>

text \<open>
  \<^verbatim>\<open>String.prototype.split\<close> with a separator of one character: the segments between the
  separators, never an empty array (\<^verbatim>\<open>''.split('-')\<close> is \<^verbatim>\<open>['']\<close>).
\<close>

fun split :: "char \<Rightarrow> string \<Rightarrow> string list" where
  "split c [] = [[]]"
| "split c (x # xs) =
     (if x = c then [] # split c xs
      else (x # hd (split c xs)) # tl (split c xs))"

text \<open>\<^verbatim>\<open>Array.prototype.join\<close>.\<close>

fun join :: "string \<Rightarrow> string list \<Rightarrow> string" where
  "join sep [] = []"
| "join sep [x] = x"
| "join sep (x # y # ys) = x @ sep @ join sep (y # ys)"

text \<open>
  \<^verbatim>\<open>const [_, ...appAlias] = app.split('-')\<close> and \<^verbatim>\<open>appAlias.join('-')\<close>: the value
  \<^verbatim>\<open>getToken\<close> lists in \<^verbatim>\<open>allowed_apps\<close>.
\<close>

definition appAlias :: "string \<Rightarrow> string" where
  "appAlias a = join ''-'' (tl (split CHR ''-'' a))"

text \<open>
  The same value in the words of the specification: the identifier with everything up to
  and including the first \<^verbatim>\<open>-\<close> removed, the empty string when there is none.
\<close>

definition after_first_dash :: "string \<Rightarrow> string" where
  "after_first_dash a =
     (if CHR ''-'' \<in> set a then tl (dropWhile (\<lambda>c. c \<noteq> CHR ''-'') a) else [])"

subsection \<open>Sockets, sessions and the world\<close>

datatype readyState = CONNECTING | OPEN | CLOSING | CLOSED

text \<open>
  A \<^verbatim>\<open>WebSocket\<close> object.  The four handlers \<^verbatim>\<open>onopen\<close>, \<^verbatim>\<open>onclose\<close>, \<^verbatim>\<open>onerror\<close> and
  \<^verbatim>\<open>onmessage\<close> are assigned together, by \<^verbatim>\<open>reconnect\<close>, and are closures of one session:
  \<open>handlers\<close> is that session (\<open>None\<close> before any assignment).
\<close>

record WebSocket =
  url :: string
  readyState :: readyState
  handlers :: "nat option"

text \<open>
  An outbound payload is an object, a finite map from property names to values, and so
  is the frame \<^verbatim>\<open>{request_id: requestId, ...input}\<close>: a property \<^verbatim>\<open>request_id\<close> of the input
  overrides the generated one.
\<close>

type_synonym payload = "string \<rightharpoonup> json"

definition frame :: "string \<Rightarrow> payload \<Rightarrow> payload" where
  "frame requestId input = [''request_id'' \<mapsto> JStr requestId] ++ input"

text \<open>
  The variables a call of \<^verbatim>\<open>connect\<close> closes over: its arguments and options, and the locals
  \<^verbatim>\<open>pendingMessage\<close>, \<^verbatim>\<open>reconnecting\<close> and \<^verbatim>\<open>ws\<close> (a socket is named by its index in the list
  of the sockets created so far).  \<open>throttleArgs\<close> is the state of the throttled \<^verbatim>\<open>send\<close>:
  the arguments recorded in the open window, \<open>None\<close> when no window is open.
\<close>

record session =
  app :: string
  connectionKey :: string
  throttleInterval :: int
  pendingMessage :: "payload option"
  reconnecting :: bool
  ws :: "nat option"
  throttleArgs :: "payload option"

text \<open>The callbacks given to \<^verbatim>\<open>setTimeout\<close>.\<close>

datatype timer =
    ExpireToken string
  | ThrottleFlush nat

text \<open>
  What the module does to its environment, in order: \<^verbatim>\<open>ws.send\<close> of a frame on a socket,
  \<^verbatim>\<open>ws.close(code, reason)\<close>, the callbacks \<^verbatim>\<open>onResult\<close> and \<^verbatim>\<open>onError\<close> of a session, and
  \<^verbatim>\<open>dispatchRequest(method, url, {allowed_apps, token_expiration})\<close>.
\<close>

datatype effect =
    WsSend nat payload
  | WsClose nat nat string
  | OnResult nat json
  | OnError nat ApiError
  | DispatchRequest string string "string list" nat

datatype error = DispatchError | AuthInProgressError

text \<open>
  The world: the configuration and runtime the module reads (\<^verbatim>\<open>getConfig().host\<close>,
  \<^verbatim>\<open>getRestApiUrl()\<close>, \<^verbatim>\<open>isReact()\<close>, \<^verbatim>\<open>isBrowser()\<close>, \<^verbatim>\<open>typeof window\<close>), the values
  \<^verbatim>\<open>crypto.randomUUID()\<close> returns, in order, and how many were drawn; the three maps of
  \<^verbatim>\<open>connectionManager\<close> (\<open>authInProgress\<close> is the key set of its \<^verbatim>\<open>isAuthInProgress\<close> map); the
  sockets created; the sessions; the token requests awaiting their reply, each with the
  session, application and key of the suspended \<^verbatim>\<open>getConnection\<close>; the timers set, each
  with its delay in milliseconds; and the effects so far.
\<close>

record world =
  host :: string
  restApiUrl :: string
  isReact :: bool
  isBrowser :: bool
  windowDefined :: bool
  uuids :: "nat \<Rightarrow> string"
  uuidsDrawn :: nat
  connections :: "string \<rightharpoonup> nat"
  tokens :: "string \<rightharpoonup> tokenValue"
  authInProgress :: "string set"
  sockets :: "WebSocket list"
  sessions :: "session list"
  inflight :: "(nat \<times> string \<times> string) list"
  timers :: "(rat \<times> timer) list"
  trace :: "effect list"

definition upd_session :: "nat \<Rightarrow> (session \<Rightarrow> session) \<Rightarrow> world \<Rightarrow> world" where
  "upd_session i f s = s\<lparr>sessions := (sessions s)[i := f (sessions s ! i)]\<rparr>"

definition upd_socket :: "nat \<Rightarrow> (WebSocket \<Rightarrow> WebSocket) \<Rightarrow> world \<Rightarrow> world" where
  "upd_socket w f s = s\<lparr>sockets := (sockets s)[w := f (sockets s ! w)]\<rparr>"

definition emit :: "effect \<Rightarrow> world \<Rightarrow> world" where
  "emit e s = s\<lparr>trace := trace s @ [e]\<rparr>"

definition randomUUID :: "world \<Rightarrow> string \<times> world" where
  "randomUUID s = (uuids s (uuidsDrawn s), s\<lparr>uuidsDrawn := Suc (uuidsDrawn s)\<rparr>)"

subsection \<open>\<^verbatim>\<open>getToken\<close>\<close>

text \<open>
  \<^verbatim>\<open>getToken\<close> up to its \<^verbatim>\<open>await\<close>: the request.  The reply arrives as an event.
\<close>

definition getToken_request :: "string \<Rightarrow> world \<Rightarrow> world" where
  "getToken_request a s =
     emit (DispatchRequest ''POST'' (''https://'' @ restApiUrl s @ ''/tokens/'')
             [appAlias a] 120) s"

text \<open>
  \<^verbatim>\<open>getToken\<close> after its \<^verbatim>\<open>await\<close>: a reply that is not a string and has a truthy \<^verbatim>\<open>detail\<close>
  is unwrapped.
\<close>

fun getToken_result :: "tokenValue \<Rightarrow> tokenValue" where
  "getToken_result (StringValue t) = StringValue t"
| "getToken_result (ObjectValue (Some d)) =
     (if d \<noteq> [] then StringValue d else ObjectValue (Some d))"
| "getToken_result (ObjectValue None) = ObjectValue None"

subsection \<open>\<^verbatim>\<open>connectionManager\<close>\<close>

definition WebSocketErrorCodes_NORMAL_CLOSURE :: nat where
  "WebSocketErrorCodes_NORMAL_CLOSURE = 1000"

definition WebSocketErrorCodes_GOING_AWAY :: nat where
  "WebSocketErrorCodes_GOING_AWAY = 1001"

definition TOKEN_EXPIRATION_SECONDS :: rat where
  "TOKEN_EXPIRATION_SECONDS = 120"

definition token :: "string \<Rightarrow> world \<Rightarrow> tokenValue option" where
  "token a s = tokens s a"

definition expireToken :: "string \<Rightarrow> world \<Rightarrow> world" where
  "expireToken a s = s\<lparr>tokens := (tokens s)(a := None)\<rparr>"

text \<open>
  \<^verbatim>\<open>refreshToken\<close> after \<^verbatim>\<open>await getToken(app)\<close>, given the outcome of the request: a failed
  request rejects the promise, with nothing done.  The delay of the timer is the product
  the source writes; it is 108000 in exact arithmetic and in IEEE doubles alike.
\<close>

definition refreshToken :: "string \<Rightarrow> error + tokenValue \<Rightarrow> world \<Rightarrow> (error + tokenValue) \<times> world" where
  "refreshToken a reply s =
     (case reply of
        Inl e \<Rightarrow> (Inl e, s)
      | Inr r \<Rightarrow>
          (let t = getToken_result r in
           (Inr t,
            s\<lparr>tokens := (tokens s)(a \<mapsto> t),
              timers := timers s @ [(TOKEN_EXPIRATION_SECONDS * 0.9 * 1000, ExpireToken a)]\<rparr>)))"

definition has :: "string \<Rightarrow> world \<Rightarrow> bool" where
  "has k s = (connections s k \<noteq> None)"

definition get :: "string \<Rightarrow> world \<Rightarrow> nat option" where
  "get k s = connections s k"

definition set_connection :: "string \<Rightarrow> nat \<Rightarrow> world \<Rightarrow> world" where
  "set_connection k w s = s\<lparr>connections := (connections s)(k \<mapsto> w)\<rparr>"

definition remove :: "string \<Rightarrow> world \<Rightarrow> world" where
  "remove k s = s\<lparr>connections := (connections s)(k := None)\<rparr>"

definition isAuthInProgress :: "string \<Rightarrow> world \<Rightarrow> bool" where
  "isAuthInProgress a s = (a \<in> authInProgress s)"

definition setAuthInProgress :: "string \<Rightarrow> bool \<Rightarrow> world \<Rightarrow> world" where
  "setAuthInProgress a inProgress s =
     (if inProgress then s\<lparr>authInProgress := insert a (authInProgress s)\<rparr>
      else s\<lparr>authInProgress := authInProgress s - {a}\<rparr>)"

subsection \<open>\<^verbatim>\<open>getConnection\<close>\<close>

definition buildRealtimeUrl :: "string \<Rightarrow> world \<Rightarrow> string" where
  "buildRealtimeUrl a s = ''wss://'' @ a @ ''.'' @ host s @ ''/ws''"

text \<open>\<^verbatim>\<open>new WebSocket(url)\<close>: a new socket, connecting, with no handler yet.\<close>

definition newWebSocket :: "string \<Rightarrow> world \<Rightarrow> nat \<times> world" where
  "newWebSocket u s =
     (length (sockets s),
      s\<lparr>sockets := sockets s @ [\<lparr>url = u, readyState = CONNECTING, handlers = None\<rparr>]\<rparr>)"

text \<open>The last three lines of \<^verbatim>\<open>getConnection\<close>: the socket is created and registered.\<close>

definition openSocket :: "string \<Rightarrow> string \<Rightarrow> tokenValue \<Rightarrow> world \<Rightarrow> nat \<times> world" where
  "openSocket a k t s =
     (let (w, s1) = newWebSocket (buildRealtimeUrl a s @ ''?fal_jwt_token='' @ toString t) s
      in (w, set_connection k w s1))"

text \<open>
  The promise of \<^verbatim>\<open>getConnection\<close> when control returns to the caller: fulfilled with a
  socket, rejected, or pending on the token request.
\<close>

datatype promise = Fulfilled nat | Rejected error | Pending

definition getConnection :: "string \<Rightarrow> string \<Rightarrow> world \<Rightarrow> promise \<times> world" where
  "getConnection a k s =
     (if isAuthInProgress a s then (Rejected AuthInProgressError, s)
      else if has k s then (Fulfilled (the (get k s)), s)
      else
        (let tok = token a s in
         if \<not> (case tok of None \<Rightarrow> False | Some t \<Rightarrow> truthy t)
         then (Pending, getToken_request a (setAuthInProgress a True s))
         else (let (w, s1) = openSocket a k (the tok) s in (Fulfilled w, s1))))"

text \<open>
  \<^verbatim>\<open>getConnection\<close> from \<^verbatim>\<open>await connectionManager.refreshToken(app)\<close> on, given the outcome
  of the token request.  A rejection of \<^verbatim>\<open>refreshToken\<close> leaves the function at the
  \<^verbatim>\<open>await\<close>.
\<close>

definition getConnection_resume ::
    "string \<Rightarrow> string \<Rightarrow> error + tokenValue \<Rightarrow> world \<Rightarrow> promise \<times> world" where
  "getConnection_resume a k reply s =
     (case refreshToken a reply s of
        (Inl e, s1) \<Rightarrow> (Rejected e, s1)
      | (Inr t, s1) \<Rightarrow>
          (let (w, s2) = openSocket a k t (setAuthInProgress a False s1)
           in (Fulfilled w, s2)))"

subsection \<open>The session: \<^verbatim>\<open>connect\<close> and its closures\<close>

definition socketOpen :: "nat \<Rightarrow> world \<Rightarrow> bool" where
  \<comment> \<open>\<^verbatim>\<open>ws && ws.readyState === WebSocket.OPEN\<close>\<close>
  "socketOpen i s =
     (case ws (sessions s ! i) of
        None \<Rightarrow> False
      | Some w \<Rightarrow> readyState (sockets s ! w) = OPEN)"

definition onError :: "nat \<Rightarrow> ApiError \<Rightarrow> world \<Rightarrow> world" where
  "onError i e s = emit (OnError i e) s"

definition onResult :: "nat \<Rightarrow> json \<Rightarrow> world \<Rightarrow> world" where
  "onResult i d s = emit (OnResult i d) s"

text \<open>
  The callback \<^verbatim>\<open>reconnect\<close> passes to \<^verbatim>\<open>then\<close>: the session takes the socket and assigns
  the four handlers.
\<close>

definition bindHandlers :: "nat \<Rightarrow> nat \<Rightarrow> world \<Rightarrow> world" where
  "bindHandlers i w s =
     upd_socket w (\<lambda>x. x\<lparr>handlers := Some i\<rparr>) (upd_session i (\<lambda>x. x\<lparr>ws := Some w\<rparr>) s)"

text \<open>
  \<^verbatim>\<open>.then(...).catch(...)\<close> on a settled promise of \<^verbatim>\<open>getConnection\<close>.  The callbacks run as
  microtasks, before any other event; nothing in the module runs between the settlement and
  them that reads what they write, so they are run at once.
\<close>

definition settle :: "nat \<Rightarrow> promise \<times> world \<Rightarrow> world" where
  "settle i p =
     (case p of
        (Fulfilled w, s) \<Rightarrow> bindHandlers i w s
      | (Rejected e, s) \<Rightarrow> onError i (ApiError ''Error opening connection'' 500) s
      | (Pending, s) \<Rightarrow> s)"

text \<open>
  \<^verbatim>\<open>reconnect\<close>.  A pending promise leaves the token request in flight, with the session
  whose callbacks wait for it.
\<close>

definition reconnect :: "nat \<Rightarrow> world \<Rightarrow> world" where
  "reconnect i s =
     (let x = sessions s ! i in
      if socketOpen i s then s
      else if isAuthInProgress (app x) s then s
      else
        (case getConnection (app x) (connectionKey x) s of
           (Pending, s1) \<Rightarrow> s1\<lparr>inflight := inflight s1 @ [(i, app x, connectionKey x)]\<rparr>
         | (p, s1) \<Rightarrow> settle i (p, s1)))"

text \<open>\<^verbatim>\<open>_send\<close>.\<close>

definition raw_send :: "nat \<Rightarrow> payload \<Rightarrow> world \<Rightarrow> world" where
  "raw_send i input s =
     (let (requestId, s1) = randomUUID s in
      if socketOpen i s1
      then emit (WsSend (the (ws (sessions s1 ! i))) (frame requestId input)) s1
      else
        (let s2 = upd_session i (\<lambda>x. x\<lparr>pendingMessage := Some input\<rparr>) s1 in
         if \<not> reconnecting (sessions s2 ! i)
         then reconnect i (upd_session i (\<lambda>x. x\<lparr>reconnecting := True\<rparr>) s2)
         else s2))"

text \<open>
  Modelled from the spec: \<^verbatim>\<open>throttle\<close> of \<^verbatim>\<open>./utils\<close>, which is not among the sources.  The
  specification: ``Trailing-edge throttle: the first call in a window is recorded;
  subsequent calls within the window are coalesced and only the last set of arguments is
  delivered once the window elapses; if \<^verbatim>\<open>intervalMs <= 0\<close>, throttling is bypassed and every
  call passes through immediately.''  Here it wraps \<^verbatim>\<open>_send\<close> of a session: the first call
  opens the window (a timer of the interval) and records its arguments, a later call in
  the window replaces them, and the timer delivers the recorded arguments to \<^verbatim>\<open>_send\<close> and
  closes the window.
\<close>

definition throttle :: "nat \<Rightarrow> payload \<Rightarrow> world \<Rightarrow> world" where
  "throttle i input s =
     (let x = sessions s ! i in
      if throttleInterval x \<le> 0 then raw_send i input s
      else
        (case throttleArgs x of
           None \<Rightarrow>
             (upd_session i (\<lambda>x. x\<lparr>throttleArgs := Some input\<rparr>) s)
               \<lparr>timers := timers s @ [(of_int (throttleInterval x), ThrottleFlush i)]\<rparr>
         | Some _ \<Rightarrow> upd_session i (\<lambda>x. x\<lparr>throttleArgs := Some input\<rparr>) s))"

text \<open>
  Modelled from the spec: the timer of \<^verbatim>\<open>throttle\<close> (see above), the end of the window.
\<close>

definition throttle_elapsed :: "nat \<Rightarrow> world \<Rightarrow> world" where
  "throttle_elapsed i s =
     (case throttleArgs (sessions s ! i) of
        None \<Rightarrow> s
      | Some input \<Rightarrow> raw_send i input (upd_session i (\<lambda>x. x\<lparr>throttleArgs := None\<rparr>) s))"

text \<open>\<^verbatim>\<open>send = throttleInterval > 0 ? throttle(_send, throttleInterval) : _send\<close>.\<close>

definition send :: "nat \<Rightarrow> payload \<Rightarrow> world \<Rightarrow> world" where
  "send i input s =
     (if throttleInterval (sessions s ! i) > 0 then throttle i input s else raw_send i input s)"

text \<open>
  \<^verbatim>\<open>ws.onopen\<close>.  A payload is an object, and an object is truthy: \<^verbatim>\<open>if (pendingMessage)\<close>
  tests whether the slot is occupied.
\<close>

definition ws_onopen :: "nat \<Rightarrow> world \<Rightarrow> world" where
  "ws_onopen i s =
     (let s1 = upd_session i (\<lambda>x. x\<lparr>reconnecting := False\<rparr>) s in
      case pendingMessage (sessions s1 ! i) of
        None \<Rightarrow> s1
      | Some m \<Rightarrow> upd_session i (\<lambda>x. x\<lparr>pendingMessage := None\<rparr>) (send i m s1))"

text \<open>\<^verbatim>\<open>ws.onclose\<close>, given \<^verbatim>\<open>event.code\<close> and \<^verbatim>\<open>event.reason\<close>.\<close>

definition ws_onclose :: "nat \<Rightarrow> nat \<Rightarrow> string \<Rightarrow> world \<Rightarrow> world" where
  "ws_onclose i code reason s =
     (let s1 = remove (connectionKey (sessions s ! i)) s;
          s2 = (if code \<noteq> WebSocketErrorCodes_NORMAL_CLOSURE
                then onError i (ApiError (''Error closing the connection: '' @ reason) code) s1
                else s1)
      in upd_session i (\<lambda>x. x\<lparr>ws := None\<rparr>) s2)"

text \<open>\<^verbatim>\<open>ws.onerror\<close>.\<close>

definition ws_onerror :: "nat \<Rightarrow> world \<Rightarrow> world" where
  "ws_onerror i s =
     (let x = sessions s ! i;
          s1 = expireToken (app x) s;
          s2 = remove (connectionKey x) s1;
          s3 = upd_session i (\<lambda>x. x\<lparr>ws := None\<rparr>) s2
      in onError i (ApiError ''Unknown error'' 500) s3)"

text \<open>
  Reading a property that only an object can have (\<^verbatim>\<open>data.status\<close>, \<^verbatim>\<open>data.type\<close>): an
  object gives the value of the property, \<open>None\<close> (\<^verbatim>\<open>undefined\<close>) if it has none; every other
  value but \<^verbatim>\<open>null\<close> gives \<^verbatim>\<open>undefined\<close>.  On \<^verbatim>\<open>null\<close> the read throws a \<^verbatim>\<open>TypeError\<close>.
\<close>

fun property :: "json \<Rightarrow> string \<Rightarrow> json option" where
  "property (JObj fs) name = map_of fs name"
| "property d name = None"

text \<open>
  \<^verbatim>\<open>ws.onmessage\<close>, given what \<^verbatim>\<open>JSON.parse(event.data)\<close> returns (\<open>None\<close>: it throws a
  \<^verbatim>\<open>SyntaxError\<close>).  An exception leaves the handler with nothing done.
\<close>

definition ws_onmessage :: "nat \<Rightarrow> json option \<Rightarrow> world \<Rightarrow> world" where
  "ws_onmessage i parsed s =
     (case parsed of
        None \<Rightarrow> s
      | Some d \<Rightarrow>
          if d = JNull then s
          else if property d ''status'' \<noteq> Some (JStr ''error'')
                  \<and> property d ''type'' \<noteq> Some (JStr ''x-fal-message'')
          then onResult i d s
          else s)"

text \<open>\<^verbatim>\<open>close\<close> of the connection \<^verbatim>\<open>connect\<close> returns.\<close>

definition close :: "nat \<Rightarrow> world \<Rightarrow> world" where
  "close i s =
     (case ws (sessions s ! i) of
        None \<Rightarrow> s
      | Some w \<Rightarrow>
          if readyState (sockets s ! w) = CLOSED
          then emit (WsClose w WebSocketErrorCodes_GOING_AWAY
                       ''Client manually closed the connection.'') s
          else s)"

text \<open>
  The options of \<^verbatim>\<open>RealtimeConnectionHandler\<close> that \<^verbatim>\<open>connect\<close> reads (\<open>None\<close>: the property
  is \<^verbatim>\<open>undefined\<close>, and the default applies); the callbacks \<^verbatim>\<open>onResult\<close> and \<^verbatim>\<open>onError\<close> are
  effects of the session.
\<close>

record handler =
  handler_connectionKey :: "string option"
  handler_clientOnly :: "bool option"
  handler_throttleInterval :: "int option"

datatype connection = NoOpConnection | Connection nat

text \<open>\<^verbatim>\<open>realtimeImpl.connect\<close>.\<close>

definition connect :: "string \<Rightarrow> handler \<Rightarrow> world \<Rightarrow> connection \<times> world" where
  "connect a h s =
     (let clientOnly =
            (case handler_clientOnly h of None \<Rightarrow> isReact s \<and> \<not> isBrowser s | Some b \<Rightarrow> b);
          (key, s1) =
            (case handler_connectionKey h of None \<Rightarrow> randomUUID s | Some k \<Rightarrow> (k, s));
          interval = (case handler_throttleInterval h of None \<Rightarrow> 64 | Some n \<Rightarrow> n)
      in if clientOnly \<and> \<not> windowDefined s1 then (NoOpConnection, s1)
         else
           (Connection (length (sessions s1)),
            s1\<lparr>sessions := sessions s1 @
                 [\<lparr>app = a, connectionKey = key, throttleInterval = interval,
                   pendingMessage = None, reconnecting = False, ws = None,
                   throttleArgs = None\<rparr>]\<rparr>))"

subsection \<open>Events\<close>

text \<open>
  The events of the environment: a call of \<^verbatim>\<open>connect\<close>; a call of \<^verbatim>\<open>send\<close> or \<^verbatim>\<open>close\<close> on
  the connection of a session; the outcome of a token request in flight; a socket opens,
  closes (with code and reason), fails, or receives a message; a timer fires.  An event
  that names no session, request, socket or timer of the world does nothing.  A socket
  opens only while connecting and receives only while open.  The user agent sets the
  ready state before it fires \<^verbatim>\<open>open\<close>, \<^verbatim>\<open>error\<close> or \<^verbatim>\<open>close\<close>; a failed socket is closed when
  \<^verbatim>\<open>error\<close> fires.  A timer may fire at any time after it was set.
\<close>

datatype event =
    Connect string handler
  | Send nat payload
  | Close nat
  | TokenReply nat "error + tokenValue"
  | SocketOpen nat
  | SocketClose nat nat string
  | SocketError nat
  | SocketMessage nat "json option"
  | TimerFires nat

definition dispatch :: "nat \<Rightarrow> (nat \<Rightarrow> world \<Rightarrow> world) \<Rightarrow> world \<Rightarrow> world" where
  \<comment> \<open>the handler of a socket, if one is assigned\<close>
  "dispatch w f s = (case handlers (sockets s ! w) of None \<Rightarrow> s | Some i \<Rightarrow> f i s)"

definition fire :: "timer \<Rightarrow> world \<Rightarrow> world" where
  "fire t s =
     (case t of
        ExpireToken a \<Rightarrow> s\<lparr>tokens := (tokens s)(a := None)\<rparr>
      | ThrottleFlush i \<Rightarrow> throttle_elapsed i s)"

fun step :: "event \<Rightarrow> world \<Rightarrow> world" where
  "step (Connect a h) s = snd (connect a h s)"
| "step (Send i m) s = (if i < length (sessions s) then send i m s else s)"
| "step (Close i) s = (if i < length (sessions s) then close i s else s)"
| "step (TokenReply n reply) s =
     (if n < length (inflight s)
      then (case inflight s ! n of
              (i, a, k) \<Rightarrow>
                settle i (getConnection_resume a k reply
                  (s\<lparr>inflight := take n (inflight s) @ drop (Suc n) (inflight s)\<rparr>)))
      else s)"
| "step (SocketOpen w) s =
     (if w < length (sockets s) \<and> readyState (sockets s ! w) = CONNECTING
      then dispatch w ws_onopen (upd_socket w (\<lambda>x. x\<lparr>readyState := OPEN\<rparr>) s)
      else s)"
| "step (SocketClose w code reason) s =
     (if w < length (sockets s)
      then dispatch w (\<lambda>i. ws_onclose i code reason)
             (upd_socket w (\<lambda>x. x\<lparr>readyState := CLOSED\<rparr>) s)
      else s)"
| "step (SocketError w) s =
     (if w < length (sockets s)
      then dispatch w ws_onerror (upd_socket w (\<lambda>x. x\<lparr>readyState := CLOSED\<rparr>) s)
      else s)"
| "step (SocketMessage w parsed) s =
     (if w < length (sockets s) \<and> readyState (sockets s ! w) = OPEN
      then dispatch w (\<lambda>i. ws_onmessage i parsed) s
      else s)"
| "step (TimerFires n) s =
     (if n < length (timers s)
      then fire (snd (timers s ! n))
             (s\<lparr>timers := take n (timers s) @ drop (Suc n) (timers s)\<rparr>)
      else s)"

fun run :: "event list \<Rightarrow> world \<Rightarrow> world" where
  "run [] s = s"
| "run (e # es) s = run es (step e s)"

text \<open>The world when the module is loaded, for a configuration and runtime.\<close>

definition init :: "string \<Rightarrow> string \<Rightarrow> bool \<Rightarrow> bool \<Rightarrow> bool \<Rightarrow> (nat \<Rightarrow> string) \<Rightarrow> world" where
  "init h r re br wd us =
     \<lparr>host = h, restApiUrl = r, isReact = re, isBrowser = br, windowDefined = wd,
      uuids = us, uuidsDrawn = 0, connections = Map.empty, tokens = Map.empty,
      authInProgress = {}, sockets = [], sessions = [], inflight = [], timers = [],
      trace = []\<rparr>"

subsection \<open>The refreshes in flight\<close>

text \<open>
  The invariant of the token requests in flight: no two are for the same application, and
  the flag of \<^verbatim>\<open>isAuthInProgress\<close> is set for the application of each.
\<close>

definition refresh_ok :: "world \<Rightarrow> bool" where
  "refresh_ok s =
     (distinct (map (\<lambda>r. fst (snd r)) (inflight s))
      \<and> set (map (\<lambda>r. fst (snd r)) (inflight s)) \<subseteq> authInProgress s)"

subsection \<open>Observations\<close>

text \<open>
  An inbound message the specification has suppressed: its status is \<^verbatim>\<open>"error"\<close>, or it
  carries the marker of an internal control message as its type.
\<close>

definition suppressed :: "json \<Rightarrow> bool" where
  "suppressed d =
     (property d ''status'' = Some (JStr ''error'')
      \<or> property d ''type'' = Some (JStr ''x-fal-message''))"

text \<open>The calls of \<^verbatim>\<open>onError\<close> among the effects.\<close>

fun isOnError :: "effect \<Rightarrow> bool" where
  "isOnError (OnError i e) = True"
| "isOnError x = False"

subsection \<open>Scenarios\<close>

text \<open>
  Concrete worlds, for the scenarios of the specification: the application and connection
  key of the demo page, a browser outside React, and distinct identifiers from
  \<^verbatim>\<open>randomUUID\<close>.
\<close>

definition demo_world :: world where
  "demo_world =
     init ''gateway.alpha.fal.ai'' ''rest.alpha.fal.ai'' False True True
       (\<lambda>n. replicate (Suc n) CHR ''u'')"

definition demo_app :: string where
  "demo_app = ''110602490-lcm-sd15-i2i''"

text \<open>A handler that turns the throttle off, and one that leaves the default interval.\<close>

definition demo_handler :: "string \<Rightarrow> handler" where
  "demo_handler k =
     \<lparr>handler_connectionKey = Some k, handler_clientOnly = None,
      handler_throttleInterval = Some 0\<rparr>"

definition throttled_handler :: handler where
  "throttled_handler =
     \<lparr>handler_connectionKey = Some ''realtime-demo'', handler_clientOnly = None,
      handler_throttleInterval = None\<rparr>"

definition prompt :: "string \<Rightarrow> payload" where
  "prompt p = [''prompt'' \<mapsto> JStr p]"

text \<open>A first send has started the token request.\<close>

definition refresh_started :: world where
  "refresh_started =
     run [Connect demo_app (demo_handler ''realtime-demo''), Send 0 (prompt ''a'')] demo_world"

text \<open>
  Two sessions of one application: the second sent while the first one's token request
  was in flight, and the token has arrived since.
\<close>

definition refresh_aborted :: world where
  "refresh_aborted =
     run [Connect demo_app (demo_handler ''a''), Connect demo_app (demo_handler ''b''),
          Send 0 (prompt ''m0''), Send 1 (prompt ''m1''),
          TokenReply 0 (Inr (StringValue ''jwt''))] demo_world"



text \<open>An open session that has delivered its first message, without and with throttle.\<close>

definition demo_open :: world where
  "demo_open =
     run [Connect demo_app (demo_handler ''realtime-demo''), Send 0 (prompt ''a''),
          TokenReply 0 (Inr (StringValue ''jwt'')), SocketOpen 0] demo_world"



text \<open>Two inbound messages: an error report and a result.\<close>

definition error_message :: json where
  "error_message = JObj [(''status'', JStr ''error''), (''detail'', JStr ''bad input'')]"

definition result_message :: json where
  "result_message = JObj [(''images'', JArr []), (''request_id'', JStr ''u'')]"

section \<open>Properties\<close>

lemmas model_defs =
  upd_session_def upd_socket_def emit_def randomUUID_def getToken_request_def
  token_def expireToken_def refreshToken_def has_def get_def set_connection_def remove_def
  isAuthInProgress_def setAuthInProgress_def buildRealtimeUrl_def newWebSocket_def
  openSocket_def getConnection_def getConnection_resume_def socketOpen_def onError_def
  onResult_def bindHandlers_def settle_def reconnect_def raw_send_def throttle_def
  throttle_elapsed_def send_def ws_onopen_def ws_onclose_def ws_onerror_def
  ws_onmessage_def close_def connect_def dispatch_def fire_def init_def Let_def
  TOKEN_EXPIRATION_SECONDS_def

lemmas scenario_defs =
  demo_world_def demo_app_def demo_handler_def throttled_handler_def

subsection \<open>The application alias of a token request\<close>

lemma split_not_Nil: "split c xs \<noteq> []"
  by (induction xs) auto

lemma join_split: "join [c] (split c xs) = xs"
proof (induction xs)
  case Nil
  show ?case by simp
next
  case (Cons x xs)
  obtain y ys where r: "split c xs = y # ys"
    using split_not_Nil [of c xs] by (cases "split c xs") auto
  show ?case
  proof (cases "x = c")
    case True
    with Cons r show ?thesis by simp
  next
    case False
    with Cons r show ?thesis by (cases ys) auto
  qed
qed

lemma appAlias_after_first_dash: "appAlias a = after_first_dash a"
proof (induction a)
  case Nil
  show ?case by (simp add: appAlias_def after_first_dash_def)
next
  case (Cons x xs)
  show ?case
  proof (cases "x = CHR ''-''")
    case True
    then show ?thesis
      using join_split [of "CHR ''-''" xs]
      by (simp add: appAlias_def after_first_dash_def)
  next
    case False
    then show ?thesis
      using Cons by (simp add: appAlias_def after_first_dash_def)
  qed
qed

text \<open>
  C10.  The token request of \<^verbatim>\<open>getToken\<close> for an application identifier is a \<^verbatim>\<open>POST\<close> to the
  token endpoint whose \<^verbatim>\<open>allowed_apps\<close> is the one-element list of the identifier with
  everything up to and including its first \<^verbatim>\<open>-\<close> removed, the empty string when the
  identifier has no \<^verbatim>\<open>-\<close>; its \<^verbatim>\<open>token_expiration\<close> is 120.  So it is for the identifier
  passed to \<^verbatim>\<open>connect\<close>: the first send of a fresh connection, whatever its application,
  key and message, makes exactly this request.
\<close>

theorem getToken_allowed_apps:
  "trace (getToken_request a s) =
     trace s @ [DispatchRequest ''POST'' (''https://'' @ restApiUrl s @ ''/tokens/'')
                  [after_first_dash a] 120]
   \<and> trace (run [Connect a (demo_handler k), Send 0 m] demo_world) =
       [DispatchRequest ''POST'' ''https://rest.alpha.fal.ai/tokens/'' [after_first_dash a] 120]"
proof
  show "trace (getToken_request a s) =
     trace s @ [DispatchRequest ''POST'' (''https://'' @ restApiUrl s @ ''/tokens/'')
                  [after_first_dash a] 120]"
    by (simp add: getToken_request_def emit_def appAlias_after_first_dash)
next
  show "trace (run [Connect a (demo_handler k), Send 0 m] demo_world) =
       [DispatchRequest ''POST'' ''https://rest.alpha.fal.ai/tokens/'' [after_first_dash a] 120]"
    by (simp add: model_defs scenario_defs appAlias_after_first_dash)
qed

subsection \<open>One token and one refresh for an application\<close>

lemma inflight_upd_session [simp]:
  "inflight (upd_session i f s) = inflight s"
  "authInProgress (upd_session i f s) = authInProgress s"
  by (simp_all add: upd_session_def)

lemma inflight_upd_socket [simp]:
  "inflight (upd_socket w f s) = inflight s"
  "authInProgress (upd_socket w f s) = authInProgress s"
  by (simp_all add: upd_socket_def)

lemma inflight_emit [simp]:
  "inflight (emit e s) = inflight s"
  "authInProgress (emit e s) = authInProgress s"
  by (simp_all add: emit_def)

lemma refresh_ok_reconnect: "refresh_ok s \<Longrightarrow> refresh_ok (reconnect i s)"
  unfolding reconnect_def getConnection_def settle_def Let_def
  by (auto simp: refresh_ok_def isAuthInProgress_def bindHandlers_def onError_def
      openSocket_def newWebSocket_def set_connection_def getToken_request_def
      setAuthInProgress_def has_def
      split: prod.splits promise.splits option.splits if_splits)

lemma refresh_ok_session [simp]: "refresh_ok (upd_session i f s) = refresh_ok s"
  by (simp add: refresh_ok_def)

lemma refresh_ok_socket [simp]: "refresh_ok (upd_socket w f s) = refresh_ok s"
  by (simp add: refresh_ok_def)

lemma refresh_ok_emit [simp]: "refresh_ok (emit e s) = refresh_ok s"
  by (simp add: refresh_ok_def)

lemma refresh_ok_raw_send: "refresh_ok s \<Longrightarrow> refresh_ok (raw_send i m s)"
proof -
  assume ok: "refresh_ok s"
  have drawn: "refresh_ok (snd (randomUUID s))"
    using ok by (simp add: randomUUID_def refresh_ok_def)
  show ?thesis
    using drawn
    by (auto simp: raw_send_def Let_def split: prod.splits intro!: refresh_ok_reconnect)
qed

lemma refresh_ok_timers [simp]: "refresh_ok (s\<lparr>timers := ts\<rparr>) = refresh_ok s"
  by (simp add: refresh_ok_def)

lemma refresh_ok_throttle: "refresh_ok s \<Longrightarrow> refresh_ok (throttle i m s)"
  by (auto simp: throttle_def Let_def refresh_ok_raw_send split: option.splits)

lemma refresh_ok_throttle_elapsed: "refresh_ok s \<Longrightarrow> refresh_ok (throttle_elapsed i s)"
  by (auto simp: throttle_elapsed_def refresh_ok_raw_send split: option.splits)

lemma refresh_ok_send: "refresh_ok s \<Longrightarrow> refresh_ok (send i m s)"
  by (simp add: send_def refresh_ok_throttle refresh_ok_raw_send)

lemma refresh_ok_onopen: "refresh_ok s \<Longrightarrow> refresh_ok (ws_onopen i s)"
  by (auto simp: ws_onopen_def Let_def refresh_ok_send split: option.splits)

lemma refresh_ok_onclose: "refresh_ok s \<Longrightarrow> refresh_ok (ws_onclose i c r s)"
  by (simp add: ws_onclose_def Let_def onError_def remove_def refresh_ok_def)

lemma refresh_ok_onerror: "refresh_ok s \<Longrightarrow> refresh_ok (ws_onerror i s)"
  by (simp add: ws_onerror_def Let_def onError_def remove_def expireToken_def refresh_ok_def)

lemma refresh_ok_onmessage: "refresh_ok s \<Longrightarrow> refresh_ok (ws_onmessage i d s)"
  by (simp add: ws_onmessage_def onResult_def split: option.splits)

lemma refresh_ok_close: "refresh_ok s \<Longrightarrow> refresh_ok (close i s)"
  by (simp add: close_def split: option.splits)

lemma refresh_ok_connect: "refresh_ok s \<Longrightarrow> refresh_ok (snd (connect a h s))"
  by (auto simp: connect_def Let_def randomUUID_def refresh_ok_def split: option.splits prod.splits)

lemma refresh_ok_dispatch:
  "(\<And>i s. refresh_ok s \<Longrightarrow> refresh_ok (f i s)) \<Longrightarrow> refresh_ok s \<Longrightarrow> refresh_ok (dispatch w f s)"
  by (simp add: dispatch_def split: option.splits)

lemma refresh_ok_fire: "refresh_ok s \<Longrightarrow> refresh_ok (fire t s)"
  by (cases t) (simp_all add: fire_def refresh_ok_throttle_elapsed, simp add: refresh_ok_def)

lemma distinct_remove_nth: "distinct xs \<Longrightarrow> distinct (take n xs @ drop (Suc n) xs)"
  by (metis distinct_take distinct_drop distinct_append set_take_disj_set_drop_if_distinct
      Suc_n_not_le_n nat_le_linear)

lemma set_remove_nth: "set (take n xs @ drop (Suc n) xs) \<subseteq> set xs"
  by (auto dest: in_set_takeD in_set_dropD)

lemma removed_not_in_rest:
  "distinct xs \<Longrightarrow> n < length xs \<Longrightarrow> xs ! n \<notin> set (take n xs @ drop (Suc n) xs)"
  by (metis distinct_append distinct.simps(2) id_take_nth_drop
      Un_iff set_append disjoint_iff list.set_intros(1))


lemma refresh_ok_reply:
  assumes ok: "refresh_ok s" and n: "n < length (inflight s)" and r: "inflight s ! n = (i, a, k)"
  shows "refresh_ok (settle i (getConnection_resume a k reply
           (s\<lparr>inflight := take n (inflight s) @ drop (Suc n) (inflight s)\<rparr>)))"
proof -
  let ?f = "\<lambda>r :: nat \<times> string \<times> string. fst (snd r)"
  let ?apps = "map ?f (inflight s)"
  define rest where "rest = take n (inflight s) @ drop (Suc n) (inflight s)"
  have rest: "map ?f rest = take n ?apps @ drop (Suc n) ?apps"
    by (simp add: rest_def take_map drop_map)
  have d: "distinct ?apps" and sub: "set ?apps \<subseteq> authInProgress s"
    using ok by (simp_all add: refresh_ok_def)
  have an: "?apps ! n = a" using n r by simp
  have d': "distinct (map ?f rest)"
    unfolding rest using d by (rule distinct_remove_nth)
  have sub': "set (map ?f rest) \<subseteq> authInProgress s"
    unfolding rest using set_remove_nth [of n ?apps] sub by blast
  have notin: "a \<notin> set (map ?f rest)"
    unfolding rest using removed_not_in_rest [OF d, of n] n an by simp
  have "refresh_ok (settle i (getConnection_resume a k reply (s\<lparr>inflight := rest\<rparr>)))"
  proof (cases reply)
    case (Inl e)
    then show ?thesis
      using d' sub'
      by (simp add: getConnection_resume_def refreshToken_def settle_def onError_def refresh_ok_def)
  next
    case (Inr t)
    then show ?thesis
      using d' sub' notin
      by (auto simp: getConnection_resume_def refreshToken_def settle_def bindHandlers_def
          refresh_ok_def openSocket_def newWebSocket_def set_connection_def
          setAuthInProgress_def Let_def split: prod.splits)
  qed
  then show ?thesis by (simp add: rest_def)
qed

lemma refresh_ok_step: "refresh_ok s \<Longrightarrow> refresh_ok (step e s)"
proof (cases e)
  case (TokenReply n reply)
  assume ok: "refresh_ok s"
  show ?thesis
  proof (cases "n < length (inflight s)")
    case True
    obtain i a k where r: "inflight s ! n = (i, a, k)" by (cases "inflight s ! n") auto
    show ?thesis using TokenReply True r refresh_ok_reply [OF ok True r] by simp
  next
    case False
    then show ?thesis using TokenReply ok by simp
  qed
qed (simp_all add: refresh_ok_connect refresh_ok_send refresh_ok_close refresh_ok_dispatch
      refresh_ok_onopen refresh_ok_onclose refresh_ok_onerror refresh_ok_onmessage refresh_ok_fire)

lemma refresh_ok_run: "refresh_ok s \<Longrightarrow> refresh_ok (run es s)"
  by (induction es arbitrary: s) (simp_all add: refresh_ok_step)

lemma refresh_ok_init: "refresh_ok (init h r re br wd us)"
  by (simp add: refresh_ok_def init_def)

lemma distinct_map_filter_le_1:
  "distinct (map f xs) \<Longrightarrow> length (filter (\<lambda>r. f r = a) xs) \<le> 1"
proof (induction xs)
  case Nil
  show ?case by simp
next
  case (Cons x xs)
  show ?case
  proof (cases "f x = a")
    case True
    with Cons.prems have "filter (\<lambda>r. f r = a) xs = []"
      by (auto simp: filter_empty_conv image_iff)
    with True show ?thesis by simp
  next
    case False
    with Cons show ?thesis by simp
  qed
qed

text \<open>
  C5.  In every world the module reaches from its initial one, by any sequence of calls
  of \<^verbatim>\<open>connect\<close>, \<^verbatim>\<open>send\<close> and \<^verbatim>\<open>close\<close>, token replies, socket events and timers, the
  token map holds at most one token for an application, and at most one token request
  for the application is in flight.
\<close>

theorem one_token_one_refresh:
  "card {t. tokens (run es (init h r re br wd us)) a = Some t} \<le> 1
   \<and> length (filter (\<lambda>q. fst (snd q) = a) (inflight (run es (init h r re br wd us)))) \<le> 1"
proof
  show "card {t. tokens (run es (init h r re br wd us)) a = Some t} \<le> 1"
    by (cases "tokens (run es (init h r re br wd us)) a") simp_all
next
  have "refresh_ok (run es (init h r re br wd us))"
    by (rule refresh_ok_run) (rule refresh_ok_init)
  then show "length (filter (\<lambda>q. fst (snd q) = a) (inflight (run es (init h r re br wd us)))) \<le> 1"
    using distinct_map_filter_le_1
      [of "\<lambda>q. fst (snd q)" "inflight (run es (init h r re br wd us))" a]
    by (simp add: refresh_ok_def)
qed

subsection \<open>\<^verbatim>\<open>refreshToken\<close>\<close>

text \<open>
  C9.  \<^verbatim>\<open>refreshToken\<close> fails, with nothing done, when the token request fails.  On
  success it returns the token, stores it for the application, and sets a timer of
  108 seconds (108000 ms), nine tenths of the 120 seconds of \<^verbatim>\<open>TOKEN_EXPIRATION_SECONDS\<close>,
  which removes the token of the application from the store when it fires.
\<close>

theorem refreshToken_contract:
  "refreshToken a (Inl e) s = (Inl e, s)
   \<and> fst (refreshToken a (Inr r) s) = Inr (getToken_result r)
   \<and> tokens (snd (refreshToken a (Inr r) s)) a = Some (getToken_result r)
   \<and> timers (snd (refreshToken a (Inr r) s)) = timers s @ [(108 * 1000, ExpireToken a)]
   \<and> 108 = TOKEN_EXPIRATION_SECONDS * 9 / 10
   \<and> tokens (step (TimerFires (length (timers s))) (snd (refreshToken a (Inr r) s))) a = None"
  by (simp add: refreshToken_def TOKEN_EXPIRATION_SECONDS_def fire_def Let_def)

subsection \<open>Inbound messages\<close>

text \<open>
  C8.  A message arrives on an open socket whose handlers are those of session \<open>i\<close>, and
  parses to a value \<open>d\<close> other than \<^verbatim>\<open>null\<close>.  If \<open>d\<close> has status \<^verbatim>\<open>"error"\<close> or the type of a
  control message, nothing happens: neither \<^verbatim>\<open>onResult\<close> nor \<^verbatim>\<open>onError\<close> is called.
  Otherwise \<^verbatim>\<open>onResult\<close> of the session is called once, with \<open>d\<close> as it is, and nothing else
  changes.
\<close>

theorem onmessage_delivery:
  assumes "w < length (sockets s)" and "readyState (sockets s ! w) = OPEN"
    and "handlers (sockets s ! w) = Some i" and "d \<noteq> JNull"
  shows "step (SocketMessage w (Some d)) s =
           s\<lparr>trace := trace s @ (if suppressed d then [] else [OnResult i d])\<rparr>"
  using assms
  by (simp add: dispatch_def ws_onmessage_def onResult_def emit_def suppressed_def)

theorem onmessage_delivery_witness:
  "0 < length (sockets demo_open) \<and> readyState (sockets demo_open ! 0) = OPEN
   \<and> handlers (sockets demo_open ! 0) = Some 0
   \<and> error_message \<noteq> JNull \<and> suppressed error_message
   \<and> trace (step (SocketMessage 0 (Some error_message)) demo_open) = trace demo_open
   \<and> result_message \<noteq> JNull \<and> \<not> suppressed result_message
   \<and> trace (step (SocketMessage 0 (Some result_message)) demo_open)
       = trace demo_open @ [OnResult 0 result_message]"
proof -
  have o: "0 < length (sockets demo_open)" "readyState (sockets demo_open ! 0) = OPEN"
    "handlers (sockets demo_open ! 0) = Some 0"
    by (simp_all add: demo_open_def model_defs scenario_defs)
  have m: "error_message \<noteq> JNull" "suppressed error_message"
    "result_message \<noteq> JNull" "\<not> suppressed result_message"
    by (simp_all add: error_message_def result_message_def suppressed_def)
  show ?thesis
    using onmessage_delivery [OF o m(1)] onmessage_delivery [OF o m(3)] o m
    by (simp del: step.simps)
qed

text \<open>A message that parses to \<^verbatim>\<open>null\<close>, or does not parse, reaches no callback.\<close>

lemma onmessage_null_or_malformed:
  "ws_onmessage i (Some JNull) s = s" "ws_onmessage i None s = s"
  by (simp_all add: ws_onmessage_def)

subsection \<open>\<^verbatim>\<open>close\<close>\<close>

lemma close_cases:
  "close i s =
     (if \<exists>w. ws (sessions s ! i) = Some w \<and> readyState (sockets s ! w) = CLOSED
      then s\<lparr>trace := trace s @
                [WsClose (the (ws (sessions s ! i))) 1001
                   ''Client manually closed the connection.'']\<rparr>
      else s)"
  by (auto simp: close_def emit_def WebSocketErrorCodes_GOING_AWAY_def split: option.splits)

lemma close_errors: "filter isOnError (trace (close i s)) = filter isOnError (trace s)"
  by (simp add: close_cases)

lemma closes_errors:
  "filter isOnError (trace (run (replicate n (Close i)) s)) = filter isOnError (trace s)"
  by (induction n arbitrary: s) (simp_all add: close_errors)

text \<open>
  C6.  \<^verbatim>\<open>close\<close> does nothing unless the session has a socket and the socket is closed; then
  it calls \<^verbatim>\<open>ws.close\<close> on it with code 1001 and the reason ``Client manually closed the
  connection.'', and changes nothing else.  Any number of calls of \<^verbatim>\<open>close\<close>, in any world,
  adds no call of \<^verbatim>\<open>onError\<close>.
\<close>

theorem close_only_when_closed:
  "close i s =
     (if \<exists>w. ws (sessions s ! i) = Some w \<and> readyState (sockets s ! w) = CLOSED
      then s\<lparr>trace := trace s @
                [WsClose (the (ws (sessions s ! i))) 1001
                   ''Client manually closed the connection.'']\<rparr>
      else s)
   \<and> filter isOnError (trace (run (replicate n (Close i)) s)) = filter isOnError (trace s)"
  using close_cases [of i s] closes_errors [of n i s] by simp

subsection \<open>The socket closes\<close>

text \<open>
  C2, as the claim states it, fails at close code 1001: the session's \<^verbatim>\<open>onError\<close> is called
  with status 1001 when the open socket of the demo session closes with that code.
\<close>

theorem going_away_raises_error:
  "trace (step (SocketClose 0 1001 ''bye'') demo_open) =
     trace demo_open @ [OnError 0 (ApiError ''Error closing the connection: bye'' 1001)]"
  by (simp add: demo_open_def model_defs scenario_defs WebSocketErrorCodes_NORMAL_CLOSURE_def)

text \<open>
  C2, amended.  When a socket whose handlers are those of session \<open>i\<close> closes, the
  registry entry of the session's connection key is removed and the session's socket
  reference is cleared.  Close code 1000 alone is an expected closure, with no call of
  \<^verbatim>\<open>onError\<close>; every other code, 1001 included, calls \<^verbatim>\<open>onError\<close> of the session once with an
  \<^verbatim>\<open>ApiError\<close> whose status is the code and whose message is ``Error closing the
  connection: '' followed by the reason.
\<close>

theorem socket_close_handling:
  assumes "w < length (sockets s)" and "handlers (sockets s ! w) = Some i"
    and "i < length (sessions s)"
  shows "connections (step (SocketClose w code reason) s) (connectionKey (sessions s ! i)) = None
    \<and> ws (sessions (step (SocketClose w code reason) s) ! i) = None
    \<and> trace (step (SocketClose w code reason) s) =
        trace s @ (if code = 1000 then []
                   else [OnError i (ApiError (''Error closing the connection: '' @ reason) code)])"
  using assms
  by (simp add: dispatch_def ws_onclose_def upd_socket_def upd_session_def remove_def
      onError_def emit_def WebSocketErrorCodes_NORMAL_CLOSURE_def Let_def)

theorem socket_close_handling_witness:
  "0 < length (sockets demo_open) \<and> handlers (sockets demo_open ! 0) = Some 0
   \<and> 0 < length (sessions demo_open)
   \<and> connections (step (SocketClose 0 1006 ''timeout'') demo_open) ''realtime-demo'' = None
   \<and> ws (sessions (step (SocketClose 0 1006 ''timeout'') demo_open) ! 0) = None
   \<and> trace (step (SocketClose 0 1006 ''timeout'') demo_open) =
        trace demo_open @ [OnError 0 (ApiError ''Error closing the connection: timeout'' 1006)]
   \<and> trace (step (SocketClose 0 1000 ''done'') demo_open) = trace demo_open"
proof -
  have a: "0 < length (sockets demo_open)" and b: "handlers (sockets demo_open ! 0) = Some 0"
    and c: "0 < length (sessions demo_open)"
    and k: "connectionKey (sessions demo_open ! 0) = ''realtime-demo''"
    by (simp_all add: demo_open_def model_defs scenario_defs)
  show ?thesis
    using socket_close_handling [OF a b c, of 1006 "''timeout''"]
      socket_close_handling [OF a b c, of 1000 "''done''"] a b c k
    by (simp del: step.simps)
qed

subsection \<open>The flag of a refresh\<close>

text \<open>A failed token request leaves the flags as they are; a successful one clears its own.\<close>

lemma reply_failure_keeps_flag:
  "authInProgress (step (TokenReply n (Inl e)) s) = authInProgress s"
  by (auto simp: getConnection_resume_def refreshToken_def settle_def onError_def emit_def
      split: prod.splits)

lemma reply_success_clears_flag:
  "n < length (inflight s) \<Longrightarrow> inflight s ! n = (i, a, k) \<Longrightarrow>
   authInProgress (step (TokenReply n (Inr r)) s) = authInProgress s - {a}"
  by (simp add: getConnection_resume_def refreshToken_def settle_def bindHandlers_def
      openSocket_def newWebSocket_def set_connection_def setAuthInProgress_def Let_def
      upd_socket_def upd_session_def split: prod.splits)

text \<open>
  C3.  The first send of the demo session starts a token refresh: the request is in
  flight and the flag of the application is set.  When the request succeeds, it is no
  longer in flight and the flag is clear.  When the request fails, it is no longer in
  flight and the flag is still set: the code does not clear it on this path.
\<close>

theorem flag_after_refresh:
  "inflight refresh_started = [(0, demo_app, ''realtime-demo'')]
   \<and> isAuthInProgress demo_app refresh_started
   \<and> inflight (step (TokenReply 0 (Inr (StringValue ''jwt''))) refresh_started) = []
   \<and> \<not> isAuthInProgress demo_app (step (TokenReply 0 (Inr (StringValue ''jwt''))) refresh_started)
   \<and> inflight (step (TokenReply 0 (Inl DispatchError)) refresh_started) = []
   \<and> isAuthInProgress demo_app (step (TokenReply 0 (Inl DispatchError)) refresh_started)"
  by (simp add: refresh_started_def model_defs scenario_defs)

subsection \<open>A send after an aborted attempt\<close>

text \<open>
  \<^verbatim>\<open>reconnect\<close> returns at once while a refresh is in progress for the application, and
  \<^verbatim>\<open>_send\<close> does not call \<^verbatim>\<open>reconnect\<close> while \<^verbatim>\<open>reconnecting\<close> is set: it only overwrites the
  pending message.
\<close>

lemma reconnect_aborted: "isAuthInProgress (app (sessions s ! i)) s \<Longrightarrow> reconnect i s = s"
  by (simp add: reconnect_def Let_def)

lemma raw_send_while_reconnecting:
  "reconnecting (sessions s ! i) \<Longrightarrow> \<not> socketOpen i s \<Longrightarrow> i < length (sessions s) \<Longrightarrow>
   raw_send i m s =
     (upd_session i (\<lambda>x. x\<lparr>pendingMessage := Some m\<rparr>) s)\<lparr>uuidsDrawn := Suc (uuidsDrawn s)\<rparr>"
  by (auto simp: raw_send_def randomUUID_def socketOpen_def upd_session_def Let_def
      split: option.splits)

text \<open>
  C1.  Two sessions of one application, with the throttle off.  The first send of session
  1 came while the refresh started by session 0 was in progress, so its attempt was
  aborted.  The refresh has completed since: no refresh is in progress, the token is
  cached, session 1 has no socket and no registry entry, and its message is pending.
  The next send of session 1 does not run the acquisition: it replaces the pending
  message and draws a request identifier, and nothing else changes, although
  \<^verbatim>\<open>reconnect\<close> would now open and register a socket for the session.  Likewise after an
  attempt that failed: when the token request of the demo session has failed, its next
  send only replaces the pending message.
\<close>

theorem no_retry_after_aborted_attempt:
  "\<not> socketOpen 1 refresh_aborted
   \<and> \<not> isAuthInProgress demo_app refresh_aborted
   \<and> pendingMessage (sessions refresh_aborted ! 1) = Some (prompt ''m1'')
   \<and> length (sockets refresh_aborted) = 1
   \<and> connections refresh_aborted ''b'' = None
   \<and> step (Send 1 (prompt ''m2'')) refresh_aborted =
       (upd_session 1 (\<lambda>x. x\<lparr>pendingMessage := Some (prompt ''m2'')\<rparr>) refresh_aborted)
         \<lparr>uuidsDrawn := Suc (uuidsDrawn refresh_aborted)\<rparr>
   \<and> connections (reconnect 1 refresh_aborted) ''b'' = Some 1
   \<and> \<not> socketOpen 0 (step (TokenReply 0 (Inl DispatchError)) refresh_started)
   \<and> step (Send 0 (prompt ''b'')) (step (TokenReply 0 (Inl DispatchError)) refresh_started) =
       (upd_session 0 (\<lambda>x. x\<lparr>pendingMessage := Some (prompt ''b'')\<rparr>)
          (step (TokenReply 0 (Inl DispatchError)) refresh_started))
         \<lparr>uuidsDrawn := Suc (uuidsDrawn (step (TokenReply 0 (Inl DispatchError)) refresh_started))\<rparr>"
  by (simp add: refresh_aborted_def refresh_started_def model_defs scenario_defs)

subsection \<open>The throttled send\<close>






text \<open>The frame of a payload: its properties, and the request identifier where it has none.\<close>

lemma frame_content:
  "frame u x = [''request_id'' \<mapsto> JStr u] ++ x"
  "x k = Some v \<Longrightarrow> frame u x k = Some v"
  "x ''request_id'' = None \<Longrightarrow> frame u x ''request_id'' = Some (JStr u)"
  "dom (frame u x) = insert ''request_id'' (dom x)"
  by (auto simp: frame_def map_add_def split: option.splits)




subsection \<open>The pending message\<close>

lemma length_sessions_upd [simp]: "length (sessions (upd_session j f s)) = length (sessions s)"
  by (simp add: upd_session_def)


lemma sessions_upd_socket [simp]: "sessions (upd_socket w f s) = sessions s"
  by (simp add: upd_socket_def)


lemma length_sessions_bindHandlers [simp]:
  "length (sessions (bindHandlers j w s)) = length (sessions s)"
  by (simp add: bindHandlers_def)


lemma length_sessions_reconnect [simp]:
  "length (sessions (reconnect j s)) = length (sessions s)"
  unfolding reconnect_def getConnection_def settle_def Let_def
  by (auto simp: onError_def emit_def openSocket_def newWebSocket_def
      set_connection_def getToken_request_def setAuthInProgress_def
      split: prod.splits promise.splits option.splits if_splits)

lemma length_sessions_raw_send [simp]:
  "length (sessions (raw_send j m s)) = length (sessions s)"
  by (simp add: raw_send_def randomUUID_def emit_def Let_def)











end
